theory Spec2Isabelle
  imports Main
begin

section \<open>The header \<open>AR/gsub_es.h\<close> as a preprocessor program over declarations\<close>

text \<open>
  \<open>gsub_es.h\<close> has no function bodies. What it does is decided by the C preprocessor:
  an include guard, seven conditional groups, five macro definitions, one typedef and
  twenty-one function prototypes. The model below keeps that structure. The file is a
  list of items in source order, conditional groups hold their own item lists, and
  \<open>pp_items\<close> runs the preprocessor over the list, threading the macro table and
  collecting what the translation unit ends up declaring.
\<close>

subsection \<open>C types and prototypes\<close>

text \<open>
  The type expressions that occur in the header. \<open>CNamed\<close> is a type name that is not a
  keyword: \<open>ARParam\<close>, \<open>AR_PIXEL_FORMAT\<close> and \<open>ARUint8\<close> come from \<open>AR/ar.h\<close> and
  \<open>AR/param.h\<close>, \<open>GLboolean\<close> and \<open>GLubyte\<close> from the OpenGL ES headers, and
  \<open>ARGL_CONTEXT_SETTINGS_REF\<close> is the one typedef of this file.
\<close>

datatype ctype =
    CVoid
  | CChar
  | CInt
  | CFloat
  | CUShort
  | CUChar
  | CNamed string
  | CStruct string
  | CPtr ctype
  | CConst ctype

record fdecl =
  fname :: string
  ret :: ctype
  params :: "(ctype \<times> string) list"

subsection \<open>Macros\<close>

text \<open>
  The replacement list of an object-like macro of this file is empty
  (\<open>#define __gsub_es_h__\<close>) or one integer (\<open>#define TRUE 1\<close>). The only
  function-like macro has a call expression as its replacement list.
\<close>

datatype expr =
    Ident string
  | Call string "expr list"

datatype macro =
    Object "int option"
  | FunctionLike "string list" expr

type_synonym env = "(string \<times> macro) list"

text \<open>
  Invoking a function-like macro replaces every parameter in the replacement list by the
  matching argument, all at once; an argument is not searched again for parameter names.
  An invocation with the wrong number of arguments is an error.
\<close>

fun subst :: "(string \<times> expr) list \<Rightarrow> expr \<Rightarrow> expr" where
  "subst \<sigma> (Ident x) = (case map_of \<sigma> x of Some e \<Rightarrow> e | None \<Rightarrow> Ident x)"
| "subst \<sigma> (Call f es) = Call f (map (subst \<sigma>) es)"

fun expand :: "macro \<Rightarrow> expr list \<Rightarrow> expr option" where
  "expand (FunctionLike ps body) args =
     (if length ps = length args then Some (subst (zip ps args) body) else None)"
| "expand (Object v) args = None"

subsection \<open>Items of a header file\<close>

text \<open>
  The three conditions the header uses: \<open>#ifdef N\<close> and \<open>#if defined N\<close>,
  \<open>#ifndef N\<close>, and \<open>#if !N\<close>.
\<close>

datatype cond =
    IfDefined string
  | IfNotDefined string
  | IfNot string

text \<open>
  \<open>Prototype\<close> is a function declaration without a body. \<open>FunctionDef\<close>, \<open>StructDef\<close> and
  \<open>Variable\<close> are the items that would carry implementation: a function with a body, a
  struct with its member list, an object definition.
\<close>

datatype item =
    Comment
  | DocComment
  | Include string
  | Define string macro
  | If cond "item list" "item list"
  | Typedef string ctype
  | Prototype fdecl
  | LinkageOpen
  | LinkageClose
  | FunctionDef fdecl
  | StructDef string "(ctype \<times> string) list"
  | Variable ctype string

subsection \<open>The preprocessor\<close>

record pp_state =
  macros :: env
  included :: "string list"
  typedefs :: "(string \<times> ctype) list"
  prototypes :: "fdecl list"
  definitions :: "string list"

text \<open>
  In \<open>#if !N\<close> an identifier that is not a macro counts as 0, and so does the name of a
  function-like macro that is not followed by an argument list. A macro with an empty
  replacement list leaves \<open>#if !\<close> without an operand, which is an error.
\<close>

fun eval_cond :: "cond \<Rightarrow> env \<Rightarrow> bool option" where
  "eval_cond (IfDefined n) e = Some (map_of e n \<noteq> None)"
| "eval_cond (IfNotDefined n) e = Some (map_of e n = None)"
| "eval_cond (IfNot n) e =
     (case map_of e n of
        None \<Rightarrow> Some True
      | Some (Object None) \<Rightarrow> None
      | Some (Object (Some v)) \<Rightarrow> Some (v = 0)
      | Some (FunctionLike ps body) \<Rightarrow> Some True)"

text \<open>
  The headers that \<open>gsub_es.h\<close> includes are not part of this file. Their effect on the
  macro table is the parameter \<open>inc\<close>: \<open>inc h e\<close> is the table after \<open>#include h\<close> in table
  \<open>e\<close>; what those headers declare is not tracked. A \<open>#define\<close> puts the new definition
  in front of the table, where it hides an older one of the same name (compilers accept
  the redefinition, with a warning when the two differ). Declarations are recorded as
  they are written: no identifier of a prototype or of the typedef is taken to be a
  macro.
\<close>

fun pp_item :: "(string \<Rightarrow> env \<Rightarrow> env) \<Rightarrow> item \<Rightarrow> pp_state \<Rightarrow> pp_state option"
  and pp_items :: "(string \<Rightarrow> env \<Rightarrow> env) \<Rightarrow> item list \<Rightarrow> pp_state \<Rightarrow> pp_state option"
where
  "pp_item inc Comment s = Some s"
| "pp_item inc DocComment s = Some s"
| "pp_item inc (Include h) s =
     Some (s\<lparr>macros := inc h (macros s), included := included s @ [h]\<rparr>)"
| "pp_item inc (Define n m) s = Some (s\<lparr>macros := (n, m) # macros s\<rparr>)"
| "pp_item inc (If c thn els) s =
     (case eval_cond c (macros s) of
        None \<Rightarrow> None
      | Some b \<Rightarrow> if b then pp_items inc thn s else pp_items inc els s)"
| "pp_item inc (Typedef n t) s = Some (s\<lparr>typedefs := typedefs s @ [(n, t)]\<rparr>)"
| "pp_item inc (Prototype d) s = Some (s\<lparr>prototypes := prototypes s @ [d]\<rparr>)"
| "pp_item inc LinkageOpen s = Some s"
| "pp_item inc LinkageClose s = Some s"
| "pp_item inc (FunctionDef d) s = Some (s\<lparr>definitions := definitions s @ [fname d]\<rparr>)"
| "pp_item inc (StructDef n fs) s = Some (s\<lparr>definitions := definitions s @ [n]\<rparr>)"
| "pp_item inc (Variable t n) s = Some (s\<lparr>definitions := definitions s @ [n]\<rparr>)"
| "pp_items inc [] s = Some s"
| "pp_items inc (i # is) s =
     (case pp_item inc i s of None \<Rightarrow> None | Some s' \<Rightarrow> pp_items inc is s')"


section \<open>The contents of \<open>gsub_es.h\<close>\<close>

subsection \<open>The typedef (line 127)\<close>

abbreviation ARGL_CONTEXT_SETTINGS_REF :: ctype where
  "ARGL_CONTEXT_SETTINGS_REF \<equiv> CNamed ''ARGL_CONTEXT_SETTINGS_REF''"

definition handle_typedef :: item where
  "handle_typedef = Typedef ''ARGL_CONTEXT_SETTINGS_REF'' (CPtr (CStruct ''_ARGL_CONTEXT_SETTINGS''))"

subsection \<open>The prototypes (lines 172 to 488)\<close>

definition arglSetupForCurrentContext :: fdecl where
  "arglSetupForCurrentContext =
     \<lparr>fname = ''arglSetupForCurrentContext'', ret = ARGL_CONTEXT_SETTINGS_REF,
      params = [(CPtr (CNamed ''ARParam''), ''cparam''), (CNamed ''AR_PIXEL_FORMAT'', ''pixelFormat'')]\<rparr>"

definition arglCleanup :: fdecl where
  "arglCleanup =
     \<lparr>fname = ''arglCleanup'', ret = CVoid,
      params = [(ARGL_CONTEXT_SETTINGS_REF, ''contextSettings'')]\<rparr>"

definition arglDispImage :: fdecl where
  "arglDispImage =
     \<lparr>fname = ''arglDispImage'', ret = CVoid,
      params = [(ARGL_CONTEXT_SETTINGS_REF, ''contextSettings'')]\<rparr>"

definition arglDispImageStateful :: fdecl where
  "arglDispImageStateful =
     \<lparr>fname = ''arglDispImageStateful'', ret = CVoid,
      params = [(ARGL_CONTEXT_SETTINGS_REF, ''contextSettings'')]\<rparr>"

definition arglDistortionCompensationSet :: fdecl where
  "arglDistortionCompensationSet =
     \<lparr>fname = ''arglDistortionCompensationSet'', ret = CChar,
      params = [(ARGL_CONTEXT_SETTINGS_REF, ''contextSettings''), (CChar, ''enable'')]\<rparr>"

definition arglDistortionCompensationGet :: fdecl where
  "arglDistortionCompensationGet =
     \<lparr>fname = ''arglDistortionCompensationGet'', ret = CChar,
      params = [(ARGL_CONTEXT_SETTINGS_REF, ''contextSettings''), (CPtr CChar, ''enable'')]\<rparr>"

definition arglSetPixelZoom :: fdecl where
  "arglSetPixelZoom =
     \<lparr>fname = ''arglSetPixelZoom'', ret = CChar,
      params = [(ARGL_CONTEXT_SETTINGS_REF, ''contextSettings''), (CFloat, ''zoom'')]\<rparr>"

definition arglGetPixelZoom :: fdecl where
  "arglGetPixelZoom =
     \<lparr>fname = ''arglGetPixelZoom'', ret = CChar,
      params = [(ARGL_CONTEXT_SETTINGS_REF, ''contextSettings''), (CPtr CFloat, ''zoom'')]\<rparr>"

definition arglPixelFormatSet :: fdecl where
  "arglPixelFormatSet =
     \<lparr>fname = ''arglPixelFormatSet'', ret = CChar,
      params = [(ARGL_CONTEXT_SETTINGS_REF, ''contextSettings''),
                (CNamed ''AR_PIXEL_FORMAT'', ''format'')]\<rparr>"

definition arglPixelFormatGet :: fdecl where
  "arglPixelFormatGet =
     \<lparr>fname = ''arglPixelFormatGet'', ret = CChar,
      params = [(ARGL_CONTEXT_SETTINGS_REF, ''contextSettings''),
                (CPtr (CNamed ''AR_PIXEL_FORMAT''), ''format''), (CPtr CInt, ''size'')]\<rparr>"

definition arglGetRotate90 :: fdecl where
  "arglGetRotate90 =
     \<lparr>fname = ''arglGetRotate90'', ret = CChar,
      params = [(ARGL_CONTEXT_SETTINGS_REF, ''contextSettings'')]\<rparr>"

definition arglSetRotate90 :: fdecl where
  "arglSetRotate90 =
     \<lparr>fname = ''arglSetRotate90'', ret = CVoid,
      params = [(ARGL_CONTEXT_SETTINGS_REF, ''contextSettings''), (CChar, ''rotate90'')]\<rparr>"

definition arglGetFlipH :: fdecl where
  "arglGetFlipH =
     \<lparr>fname = ''arglGetFlipH'', ret = CChar,
      params = [(ARGL_CONTEXT_SETTINGS_REF, ''contextSettings'')]\<rparr>"

definition arglSetFlipH :: fdecl where
  "arglSetFlipH =
     \<lparr>fname = ''arglSetFlipH'', ret = CVoid,
      params = [(ARGL_CONTEXT_SETTINGS_REF, ''contextSettings''), (CChar, ''flipH'')]\<rparr>"

definition arglGetFlipV :: fdecl where
  "arglGetFlipV =
     \<lparr>fname = ''arglGetFlipV'', ret = CChar,
      params = [(ARGL_CONTEXT_SETTINGS_REF, ''contextSettings'')]\<rparr>"

definition arglSetFlipV :: fdecl where
  "arglSetFlipV =
     \<lparr>fname = ''arglSetFlipV'', ret = CVoid,
      params = [(ARGL_CONTEXT_SETTINGS_REF, ''contextSettings''), (CChar, ''flipV'')]\<rparr>"

definition arglPixelBufferSizeSet :: fdecl where
  "arglPixelBufferSizeSet =
     \<lparr>fname = ''arglPixelBufferSizeSet'', ret = CChar,
      params = [(ARGL_CONTEXT_SETTINGS_REF, ''contextSettings''),
                (CInt, ''bufWidth''), (CInt, ''bufHeight'')]\<rparr>"

definition arglPixelBufferSizeGet :: fdecl where
  "arglPixelBufferSizeGet =
     \<lparr>fname = ''arglPixelBufferSizeGet'', ret = CChar,
      params = [(ARGL_CONTEXT_SETTINGS_REF, ''contextSettings''),
                (CPtr CInt, ''bufWidth''), (CPtr CInt, ''bufHeight'')]\<rparr>"

definition arglPixelBufferDataUploadBiPlanar :: fdecl where
  "arglPixelBufferDataUploadBiPlanar =
     \<lparr>fname = ''arglPixelBufferDataUploadBiPlanar'', ret = CChar,
      params = [(ARGL_CONTEXT_SETTINGS_REF, ''contextSettings''),
                (CPtr (CNamed ''ARUint8''), ''bufDataPtr0''),
                (CPtr (CNamed ''ARUint8''), ''bufDataPtr1'')]\<rparr>"

definition arglGluCheckExtension :: fdecl where
  "arglGluCheckExtension =
     \<lparr>fname = ''arglGluCheckExtension'', ret = CNamed ''GLboolean'',
      params = [(CPtr (CConst (CNamed ''GLubyte'')), ''extName''),
                (CPtr (CConst (CNamed ''GLubyte'')), ''extString'')]\<rparr>"

definition arglGLCapabilityCheck :: fdecl where
  "arglGLCapabilityCheck =
     \<lparr>fname = ''arglGLCapabilityCheck'', ret = CInt,
      params = [(CConst CUShort, ''minVersion''), (CPtr (CConst CUChar), ''extension'')]\<rparr>"

subsection \<open>The function-like macro (line 453)\<close>

text \<open>
  \<^verbatim>\<open>#define arglPixelBufferDataUpload(contextSettings,bufDataPtr) arglPixelBufferDataUploadBiPlanar(contextSettings,bufDataPtr,NULL)\<close>
\<close>

definition arglPixelBufferDataUpload :: macro where
  "arglPixelBufferDataUpload =
     FunctionLike [''contextSettings'', ''bufDataPtr'']
       (Call ''arglPixelBufferDataUploadBiPlanar''
          [Ident ''contextSettings'', Ident ''bufDataPtr'', Ident ''NULL''])"

subsection \<open>The file, item by item\<close>

text \<open>
  The second group under \<open>#if !ARGL_DISABLE_DISP_IMAGE\<close> (lines 135 to 455): nineteen
  prototypes, fifteen of them under a documentation comment, and the macro.
\<close>

definition disp_image_group :: "item list" where
  "disp_image_group =
     [DocComment, Prototype arglSetupForCurrentContext,
      DocComment, Prototype arglCleanup,
      DocComment, Prototype arglDispImage,
      DocComment, Prototype arglDispImageStateful,
      DocComment, Prototype arglDistortionCompensationSet,
      DocComment, Prototype arglDistortionCompensationGet,
      DocComment, Prototype arglSetPixelZoom,
      DocComment, Prototype arglGetPixelZoom,
      DocComment, Prototype arglPixelFormatSet,
      DocComment, Prototype arglPixelFormatGet,
      DocComment, Prototype arglGetRotate90,
      DocComment, Prototype arglSetRotate90,
      Prototype arglGetFlipH,
      Prototype arglSetFlipH,
      Prototype arglGetFlipV,
      Prototype arglSetFlipV,
      DocComment, Prototype arglPixelBufferSizeSet,
      DocComment, Prototype arglPixelBufferSizeGet,
      DocComment, Prototype arglPixelBufferDataUploadBiPlanar,
      Define ''arglPixelBufferDataUpload'' arglPixelBufferDataUpload]"

text \<open>
  Everything between \<open>#ifndef __gsub_es_h__\<close> (line 65) and its \<open>#endif\<close> (line 493), in
  the sections the header itself marks with comment rules: ``Public includes'',
  ``Public types and definitions'' and ``Public functions''. The \<open>extern "C"\<close> braces
  stand between the sections.
\<close>

definition public_includes :: "item list" where
  "public_includes =
     [Comment, Comment, Comment,
      If (IfDefined ''ANDROID'')
         [Include ''GLES/gl.h'', Include ''GLES/glext.h'']
         [Include ''OpenGLES/ES1/gl.h'', Include ''OpenGLES/ES1/glext.h''],
      Include ''AR/config.h'',
      Include ''AR/ar.h'', Comment,
      Include ''AR/param.h'', Comment,
      Include ''glStateCache.h'']"

definition public_types :: "item list" where
  "public_types =
     [Comment, Comment, Comment,
      Define ''ARGL_DISABLE_DISP_IMAGE'' (Object (Some 0)),
      If (IfNotDefined ''TRUE'') [Define ''TRUE'' (Object (Some 1))] [],
      If (IfNotDefined ''FALSE'') [Define ''FALSE'' (Object (Some 0))] [],
      If (IfNot ''ARGL_DISABLE_DISP_IMAGE'') [DocComment, handle_typedef] []]"

definition public_functions :: "item list" where
  "public_functions =
     [Comment, Comment, Comment,
      If (IfNot ''ARGL_DISABLE_DISP_IMAGE'') disp_image_group [],
      Comment,
      DocComment, Prototype arglGluCheckExtension,
      DocComment, Prototype arglGLCapabilityCheck]"

definition guarded :: "item list" where
  "guarded =
     [Define ''__gsub_es_h__'' (Object None)]
     @ public_includes
     @ [If (IfDefined ''__cplusplus'') [LinkageOpen] []]
     @ public_types
     @ public_functions
     @ [If (IfDefined ''__cplusplus'') [LinkageClose] []]"

definition gsub_es_h :: "item list" where
  "gsub_es_h = [Comment, DocComment, If (IfNotDefined ''__gsub_es_h__'') guarded [], Comment]"

subsection \<open>Including the header\<close>

definition start :: "env \<Rightarrow> pp_state" where
  "start e = \<lparr>macros = e, included = [], typedefs = [], prototypes = [], definitions = []\<rparr>"

text \<open>
  \<open>preprocess inc e\<close> is the result of \<open>#include <AR/gsub_es.h>\<close> when the macro table is
  \<open>e\<close>: \<open>None\<close> when a directive is in error, otherwise what the header has added.
\<close>

definition preprocess :: "(string \<Rightarrow> env \<Rightarrow> env) \<Rightarrow> env \<Rightarrow> pp_state option" where
  "preprocess inc e = pp_items inc gsub_es_h (start e)"

definition declared :: "(string \<Rightarrow> env \<Rightarrow> env) \<Rightarrow> env \<Rightarrow> fdecl list" where
  "declared inc e = (case preprocess inc e of None \<Rightarrow> [] | Some s \<Rightarrow> prototypes s)"

text \<open>An include effect for concrete runs: the included headers define no macro.\<close>

definition defines_nothing :: "string \<Rightarrow> env \<Rightarrow> env" where
  "defines_nothing h e = e"


section \<open>What an inclusion yields\<close>

text \<open>
  Closed forms for the result of \<open>preprocess\<close>, used to state the lemmas below: the
  prototypes in source order, the headers pulled in (the OpenGL ES pair depends on
  \<open>ANDROID\<close>), the macro table when line 93 is reached, and the final macro table.
\<close>

definition all_prototypes :: "fdecl list" where
  "all_prototypes =
     [arglSetupForCurrentContext, arglCleanup, arglDispImage, arglDispImageStateful,
      arglDistortionCompensationSet, arglDistortionCompensationGet,
      arglSetPixelZoom, arglGetPixelZoom, arglPixelFormatSet, arglPixelFormatGet,
      arglGetRotate90, arglSetRotate90, arglGetFlipH, arglSetFlipH, arglGetFlipV, arglSetFlipV,
      arglPixelBufferSizeSet, arglPixelBufferSizeGet, arglPixelBufferDataUploadBiPlanar,
      arglGluCheckExtension, arglGLCapabilityCheck]"

definition included_headers :: "env \<Rightarrow> string list" where
  "included_headers e =
     (if map_of e ''ANDROID'' \<noteq> None then [''GLES/gl.h'', ''GLES/glext.h'']
      else [''OpenGLES/ES1/gl.h'', ''OpenGLES/ES1/glext.h''])
     @ [''AR/config.h'', ''AR/ar.h'', ''AR/param.h'', ''glStateCache.h'']"

definition after_includes :: "(string \<Rightarrow> env \<Rightarrow> env) \<Rightarrow> env \<Rightarrow> env" where
  "after_includes inc e = fold inc (included_headers e) ((''__gsub_es_h__'', Object None) # e)"

definition unless_defined :: "string \<Rightarrow> int \<Rightarrow> env \<Rightarrow> env" where
  "unless_defined n v e = (if map_of e n = None then (n, Object (Some v)) # e else e)"

definition macros_after :: "(string \<Rightarrow> env \<Rightarrow> env) \<Rightarrow> env \<Rightarrow> env" where
  "macros_after inc e =
     (''arglPixelBufferDataUpload'', arglPixelBufferDataUpload)
     # unless_defined ''FALSE'' 0 (unless_defined ''TRUE'' 1
         ((''ARGL_DISABLE_DISP_IMAGE'', Object (Some 0)) # after_includes inc e))"

text \<open>Projections of the result; a preprocessing error declares nothing.\<close>

definition declared_types :: "(string \<Rightarrow> env \<Rightarrow> env) \<Rightarrow> env \<Rightarrow> (string \<times> ctype) list" where
  "declared_types inc e = (case preprocess inc e of None \<Rightarrow> [] | Some s \<Rightarrow> typedefs s)"

definition defined_macro :: "(string \<Rightarrow> env \<Rightarrow> env) \<Rightarrow> env \<Rightarrow> string \<Rightarrow> macro option" where
  "defined_macro inc e n = (case preprocess inc e of None \<Rightarrow> None | Some s \<Rightarrow> map_of (macros s) n)"


section \<open>The file as text: every item, inside conditional groups too\<close>

fun flatten_item :: "item \<Rightarrow> item list" and flatten :: "item list \<Rightarrow> item list" where
  "flatten_item (If c thn els) = If c thn els # flatten thn @ flatten els"
| "flatten_item Comment = [Comment]"
| "flatten_item DocComment = [DocComment]"
| "flatten_item (Include h) = [Include h]"
| "flatten_item (Define n m) = [Define n m]"
| "flatten_item (Typedef n t) = [Typedef n t]"
| "flatten_item (Prototype d) = [Prototype d]"
| "flatten_item LinkageOpen = [LinkageOpen]"
| "flatten_item LinkageClose = [LinkageClose]"
| "flatten_item (FunctionDef d) = [FunctionDef d]"
| "flatten_item (StructDef n fs) = [StructDef n fs]"
| "flatten_item (Variable t n) = [Variable t n]"
| "flatten [] = []"
| "flatten (i # is) = flatten_item i @ flatten is"

text \<open>
  The kinds of item. Plain comments and documentation comments are both comment text;
  the \<open>extern "C"\<close> braces are declaration syntax (a linkage specification);
  \<open>#define\<close> and the conditional directives are preprocessor directives.
\<close>

datatype kind = Declaration | Inclusion | CommentText | Directive | Implementation

fun kind_of :: "item \<Rightarrow> kind" where
  "kind_of Comment = CommentText"
| "kind_of DocComment = CommentText"
| "kind_of (Include h) = Inclusion"
| "kind_of (Define n m) = Directive"
| "kind_of (If c thn els) = Directive"
| "kind_of (Typedef n t) = Declaration"
| "kind_of (Prototype d) = Declaration"
| "kind_of LinkageOpen = Declaration"
| "kind_of LinkageClose = Declaration"
| "kind_of (FunctionDef d) = Implementation"
| "kind_of (StructDef n fs) = Implementation"
| "kind_of (Variable t n) = Implementation"

fun function_macro :: "item \<Rightarrow> bool" where
  "function_macro (Define n (FunctionLike ps body)) = True"
| "function_macro i = False"

fun struct_definition :: "item \<Rightarrow> bool" where
  "struct_definition (StructDef n fs) = True"
| "struct_definition i = False"

section \<open>Shapes of signatures\<close>

text \<open>A type expression that spells out a struct, rather than naming a typedef.\<close>

fun mentions_struct :: "ctype \<Rightarrow> bool" where
  "mentions_struct (CStruct n) = True"
| "mentions_struct (CPtr t) = mentions_struct t"
| "mentions_struct (CConst t) = mentions_struct t"
| "mentions_struct t = False"

text \<open>The handle is the first parameter, and only the first.\<close>

definition handle_first :: "fdecl \<Rightarrow> bool" where
  "handle_first d =
     (case params d of
        [] \<Rightarrow> False
      | (t, n) # ps \<Rightarrow> t = ARGL_CONTEXT_SETTINGS_REF
                        \<and> list_all (\<lambda>p. fst p \<noteq> ARGL_CONTEXT_SETTINGS_REF) ps)"

text \<open>
  The three prototypes that stand apart from the per-context operations: the one that
  creates a handle, and the two capability checks declared outside the
  \<open>ARGL_DISABLE_DISP_IMAGE\<close> group.
\<close>

definition without_handle :: "string list" where
  "without_handle = [''arglSetupForCurrentContext'', ''arglGluCheckExtension'', ''arglGLCapabilityCheck'']"

section \<open>The specification's wording\<close>







text \<open>
  ``Takes an opaque context handle plus primitive parameters and returns a boolean-like
  success code or void.'' Primitive is read generously: the arithmetic types, the
  enumeration and byte types of the toolkit and of OpenGL, and pointers to any of them.
  \<open>ARParam\<close> is the camera-parameter structure and is not primitive. Boolean-like is
  \<open>char\<close>, \<open>int\<close> or \<open>GLboolean\<close>.
\<close>

fun primitive :: "ctype \<Rightarrow> bool" where
  "primitive CChar = True"
| "primitive CInt = True"
| "primitive CFloat = True"
| "primitive CUShort = True"
| "primitive CUChar = True"
| "primitive (CNamed n) = (n \<in> set [''AR_PIXEL_FORMAT'', ''ARUint8'', ''GLubyte'', ''GLboolean''])"
| "primitive (CPtr t) = primitive t"
| "primitive (CConst t) = primitive t"
| "primitive CVoid = False"
| "primitive (CStruct n) = False"

definition takes_handle :: "fdecl \<Rightarrow> bool" where
  "takes_handle d = (ARGL_CONTEXT_SETTINGS_REF \<in> set (map fst (params d)))"

definition primitive_rest :: "fdecl \<Rightarrow> bool" where
  "primitive_rest d = list_all primitive (removeAll ARGL_CONTEXT_SETTINGS_REF (map fst (params d)))"

text \<open>
  The parameter types the per-context operations use besides the handle: \<open>char\<close>,
  \<open>int\<close>, \<open>float\<close> or \<open>AR_PIXEL_FORMAT\<close>, or a pointer to one of these or to \<open>ARUint8\<close>.
\<close>

fun listed_scalar :: "ctype \<Rightarrow> bool" where
  "listed_scalar CChar = True"
| "listed_scalar CInt = True"
| "listed_scalar CFloat = True"
| "listed_scalar (CNamed n) = (n = ''AR_PIXEL_FORMAT'')"
| "listed_scalar CVoid = False"
| "listed_scalar CUShort = False"
| "listed_scalar CUChar = False"
| "listed_scalar (CStruct n) = False"
| "listed_scalar (CPtr t) = False"
| "listed_scalar (CConst t) = False"

fun listed_parameter :: "ctype \<Rightarrow> bool" where
  "listed_parameter (CPtr t) = (listed_scalar t \<or> t = CNamed ''ARUint8'')"
| "listed_parameter CChar = True"
| "listed_parameter CInt = True"
| "listed_parameter CFloat = True"
| "listed_parameter (CNamed n) = (n = ''AR_PIXEL_FORMAT'')"
| "listed_parameter CVoid = False"
| "listed_parameter CUShort = False"
| "listed_parameter CUChar = False"
| "listed_parameter (CStruct n) = False"
| "listed_parameter (CConst t) = False"

definition listed_rest :: "fdecl \<Rightarrow> bool" where
  "listed_rest d =
     list_all listed_parameter (removeAll ARGL_CONTEXT_SETTINGS_REF (map fst (params d)))"

definition boolean_like :: "ctype \<Rightarrow> bool" where
  "boolean_like t = (t = CChar \<or> t = CInt \<or> t = CNamed ''GLboolean'')"

definition spec_signature :: "fdecl \<Rightarrow> bool" where
  "spec_signature d = (takes_handle d \<and> primitive_rest d \<and> (boolean_like (ret d) \<or> ret d = CVoid))"

text \<open>
  The operations the specification lists as the whole surface: setup and cleanup, the
  two display variants, get and set for distortion compensation, pixel zoom, pixel
  format, rotation, horizontal flip, vertical flip and pixel-buffer size, the bi-planar
  upload, and the two capability checks.
\<close>

definition spec_surface :: "string list" where
  "spec_surface =
     [''arglSetupForCurrentContext'', ''arglCleanup'',
      ''arglDispImage'', ''arglDispImageStateful'',
      ''arglDistortionCompensationGet'', ''arglDistortionCompensationSet'',
      ''arglGetPixelZoom'', ''arglSetPixelZoom'',
      ''arglPixelFormatGet'', ''arglPixelFormatSet'',
      ''arglGetRotate90'', ''arglSetRotate90'',
      ''arglGetFlipH'', ''arglSetFlipH'',
      ''arglGetFlipV'', ''arglSetFlipV'',
      ''arglPixelBufferSizeGet'', ''arglPixelBufferSizeSet'',
      ''arglPixelBufferDataUploadBiPlanar'',
      ''arglGluCheckExtension'', ''arglGLCapabilityCheck'']"

section \<open>Running the preprocessor over the header\<close>

lemmas prototype_defs =
  arglSetupForCurrentContext_def arglCleanup_def arglDispImage_def arglDispImageStateful_def
  arglDistortionCompensationSet_def arglDistortionCompensationGet_def
  arglSetPixelZoom_def arglGetPixelZoom_def arglPixelFormatSet_def arglPixelFormatGet_def
  arglGetRotate90_def arglSetRotate90_def arglGetFlipH_def arglSetFlipH_def
  arglGetFlipV_def arglSetFlipV_def arglPixelBufferSizeSet_def arglPixelBufferSizeGet_def
  arglPixelBufferDataUploadBiPlanar_def arglGluCheckExtension_def arglGLCapabilityCheck_def

lemma pp_items_append:
  "pp_items inc (xs @ ys) s =
     (case pp_items inc xs s of None \<Rightarrow> None | Some s' \<Rightarrow> pp_items inc ys s')"
  by (induction xs arbitrary: s) (simp_all split: option.split)

lemma macros_start: "macros (start e) = e"
  by (simp add: start_def)

lemma linkage_run:
  "pp_item inc (If (IfDefined n) [LinkageOpen] []) s = Some s"
  "pp_item inc (If (IfDefined n) [LinkageClose] []) s = Some s"
  by simp_all

lemma includes_run:
  "pp_items inc public_includes s =
     Some (s\<lparr>macros := fold inc (included_headers (macros s)) (macros s),
             included := included s @ included_headers (macros s)\<rparr>)"
  by (cases "map_of (macros s) ''ANDROID''")
     (simp_all add: public_includes_def included_headers_def)

lemma types_run:
  "pp_items inc public_types s =
     Some (s\<lparr>macros := unless_defined ''FALSE'' 0 (unless_defined ''TRUE'' 1
                          ((''ARGL_DISABLE_DISP_IMAGE'', Object (Some 0)) # macros s)),
             typedefs := typedefs s @
               [(''ARGL_CONTEXT_SETTINGS_REF'', CPtr (CStruct ''_ARGL_CONTEXT_SETTINGS''))]\<rparr>)"
  by (cases "map_of (macros s) ''TRUE''"; cases "map_of (macros s) ''FALSE''")
     (simp_all add: public_types_def handle_typedef_def unless_defined_def)

lemma group_run:
  "pp_items inc disp_image_group s =
     Some (s\<lparr>macros := (''arglPixelBufferDataUpload'', arglPixelBufferDataUpload) # macros s,
             prototypes := prototypes s @
               [arglSetupForCurrentContext, arglCleanup, arglDispImage, arglDispImageStateful,
                arglDistortionCompensationSet, arglDistortionCompensationGet,
                arglSetPixelZoom, arglGetPixelZoom, arglPixelFormatSet, arglPixelFormatGet,
                arglGetRotate90, arglSetRotate90, arglGetFlipH, arglSetFlipH,
                arglGetFlipV, arglSetFlipV, arglPixelBufferSizeSet, arglPixelBufferSizeGet,
                arglPixelBufferDataUploadBiPlanar]\<rparr>)"
  by (simp add: disp_image_group_def)

lemma functions_run:
  "map_of (macros s) ''ARGL_DISABLE_DISP_IMAGE'' = Some (Object (Some 0)) \<Longrightarrow>
   pp_items inc public_functions s =
     Some (s\<lparr>macros := (''arglPixelBufferDataUpload'', arglPixelBufferDataUpload) # macros s,
             prototypes := prototypes s @ all_prototypes\<rparr>)"
  by (simp add: public_functions_def group_run all_prototypes_def)

lemma unless_defined_other: "k \<noteq> n \<Longrightarrow> map_of (unless_defined n v e) k = map_of e k"
  by (simp add: unless_defined_def)


lemma guarded_run:
  "pp_items inc guarded (start e) =
     Some \<lparr>macros = macros_after inc e, included = included_headers e,
           typedefs = [(''ARGL_CONTEXT_SETTINGS_REF'', CPtr (CStruct ''_ARGL_CONTEXT_SETTINGS''))],
           prototypes = all_prototypes, definitions = []\<rparr>"
proof -
  let ?e0 = "(''__gsub_es_h__'', Object None) # e"
  have hs: "included_headers ?e0 = included_headers e"
    by (simp add: included_headers_def)
  have off: "map_of (unless_defined ''FALSE'' 0 (unless_defined ''TRUE'' 1
                ((''ARGL_DISABLE_DISP_IMAGE'', Object (Some 0)) # m))) ''ARGL_DISABLE_DISP_IMAGE''
             = Some (Object (Some 0))" for m
    by (simp add: unless_defined_other)
  show ?thesis
    unfolding guarded_def
    by (simp add: pp_items_append includes_run types_run functions_run linkage_run off hs
          start_def macros_after_def after_includes_def del: pp_item.simps(5))
qed

text \<open>
  The first inclusion, with the guard macro not yet defined, never fails, whatever else
  the macro table holds and whatever the included headers define.
\<close>

lemma first_inclusion:
  "map_of e ''__gsub_es_h__'' = None \<Longrightarrow>
   preprocess inc e =
     Some \<lparr>macros = macros_after inc e, included = included_headers e,
           typedefs = [(''ARGL_CONTEXT_SETTINGS_REF'', CPtr (CStruct ''_ARGL_CONTEXT_SETTINGS''))],
           prototypes = all_prototypes, definitions = []\<rparr>"
  by (simp add: preprocess_def gsub_es_h_def guarded_run macros_start)

text \<open>A repeated inclusion adds nothing.\<close>

lemma repeated_inclusion:
  "map_of e ''__gsub_es_h__'' \<noteq> None \<Longrightarrow> preprocess inc e = Some (start e)"
  by (auto simp add: preprocess_def gsub_es_h_def macros_start)

lemma declared_first:
  "map_of e ''__gsub_es_h__'' = None \<Longrightarrow> declared inc e = all_prototypes"
  by (simp add: declared_def first_inclusion)

lemma declared_types_first:
  "map_of e ''__gsub_es_h__'' = None \<Longrightarrow>
   declared_types inc e = [(''ARGL_CONTEXT_SETTINGS_REF'', CPtr (CStruct ''_ARGL_CONTEXT_SETTINGS''))]"
  by (simp add: declared_types_def first_inclusion)

lemma defined_macro_first:
  "map_of e ''__gsub_es_h__'' = None \<Longrightarrow> defined_macro inc e n = map_of (macros_after inc e) n"
  by (simp add: defined_macro_def first_inclusion)

section \<open>Inventory of the header\<close>

lemma names_all: "map fname all_prototypes =
     [''arglSetupForCurrentContext'', ''arglCleanup'', ''arglDispImage'', ''arglDispImageStateful'',
      ''arglDistortionCompensationSet'', ''arglDistortionCompensationGet'',
      ''arglSetPixelZoom'', ''arglGetPixelZoom'', ''arglPixelFormatSet'', ''arglPixelFormatGet'',
      ''arglGetRotate90'', ''arglSetRotate90'', ''arglGetFlipH'', ''arglSetFlipH'',
      ''arglGetFlipV'', ''arglSetFlipV'', ''arglPixelBufferSizeSet'', ''arglPixelBufferSizeGet'',
      ''arglPixelBufferDataUploadBiPlanar'', ''arglGluCheckExtension'', ''arglGLCapabilityCheck'']"
  by (simp add: all_prototypes_def prototype_defs)

lemma flatten_header:
  "flatten gsub_es_h =
     [Comment, DocComment, If (IfNotDefined ''__gsub_es_h__'') guarded [],
      Define ''__gsub_es_h__'' (Object None),
      Comment, Comment, Comment,
      If (IfDefined ''ANDROID'')
         [Include ''GLES/gl.h'', Include ''GLES/glext.h'']
         [Include ''OpenGLES/ES1/gl.h'', Include ''OpenGLES/ES1/glext.h''],
      Include ''GLES/gl.h'', Include ''GLES/glext.h'',
      Include ''OpenGLES/ES1/gl.h'', Include ''OpenGLES/ES1/glext.h'',
      Include ''AR/config.h'', Include ''AR/ar.h'', Comment, Include ''AR/param.h'', Comment,
      Include ''glStateCache.h'',
      If (IfDefined ''__cplusplus'') [LinkageOpen] [], LinkageOpen,
      Comment, Comment, Comment,
      Define ''ARGL_DISABLE_DISP_IMAGE'' (Object (Some 0)),
      If (IfNotDefined ''TRUE'') [Define ''TRUE'' (Object (Some 1))] [],
      Define ''TRUE'' (Object (Some 1)),
      If (IfNotDefined ''FALSE'') [Define ''FALSE'' (Object (Some 0))] [],
      Define ''FALSE'' (Object (Some 0)),
      If (IfNot ''ARGL_DISABLE_DISP_IMAGE'') [DocComment, handle_typedef] [],
      DocComment, handle_typedef,
      Comment, Comment, Comment,
      If (IfNot ''ARGL_DISABLE_DISP_IMAGE'') disp_image_group []]
     @ disp_image_group
     @ [Comment,
        DocComment, Prototype arglGluCheckExtension,
        DocComment, Prototype arglGLCapabilityCheck,
        If (IfDefined ''__cplusplus'') [LinkageClose] [], LinkageClose,
        Comment]"
proof -
  have g: "flatten disp_image_group = disp_image_group"
    by (simp add: disp_image_group_def)
  have t: "flatten_item handle_typedef = [handle_typedef]"
    by (simp add: handle_typedef_def)
  show ?thesis
    by (simp add: gsub_es_h_def guarded_def public_includes_def public_types_def
          public_functions_def g t)
qed

lemma function_macros_header:
  "filter function_macro (flatten gsub_es_h) =
     [Define ''arglPixelBufferDataUpload'' arglPixelBufferDataUpload]"
  unfolding flatten_header
  by (simp add: disp_image_group_def handle_typedef_def arglPixelBufferDataUpload_def)

lemma kinds_header: "list_all (\<lambda>i. kind_of i \<noteq> Implementation) (flatten gsub_es_h)"
  unfolding flatten_header
  by (simp add: disp_image_group_def handle_typedef_def)

lemma no_struct_definition: "filter struct_definition (flatten gsub_es_h) = []"
  unfolding flatten_header
  by (simp add: disp_image_group_def handle_typedef_def)

text \<open>
  The kinds are sound for the preprocessor: running items none of which carries
  implementation, in any macro table, leaves the list of definitions as it was.
\<close>

lemma kinds_sound:
  "pp_item inc i s = Some s' \<Longrightarrow> list_all (\<lambda>j. kind_of j \<noteq> Implementation) (flatten_item i)
     \<Longrightarrow> definitions s' = definitions s"
  "pp_items inc is s = Some s' \<Longrightarrow> list_all (\<lambda>j. kind_of j \<noteq> Implementation) (flatten is)
     \<Longrightarrow> definitions s' = definitions s"
proof (induction inc i s and inc "is" s arbitrary: s' and s' rule: pp_item_pp_items.induct)
  case (5 inc c thn els s)
  from "5.prems" obtain b where b: "eval_cond c (macros s) = Some b"
    by (cases "eval_cond c (macros s)") simp_all
  show ?case
  proof (cases b)
    case True
    with b "5.prems" have "pp_items inc thn s = Some s'" by simp
    moreover from "5.prems" have "list_all (\<lambda>j. kind_of j \<noteq> Implementation) (flatten thn)" by simp
    ultimately show ?thesis using "5.IH"(1) [OF b True] by simp
  next
    case False
    with b "5.prems" have "pp_items inc els s = Some s'" by simp
    moreover from "5.prems" have "list_all (\<lambda>j. kind_of j \<noteq> Implementation) (flatten els)" by simp
    ultimately show ?thesis using "5.IH"(2) [OF b False] by simp
  qed
next
  case (14 inc i "is" s)
  from "14.prems" obtain t where t: "pp_item inc i s = Some t" and r: "pp_items inc is t = Some s'"
    by (cases "pp_item inc i s") simp_all
  from "14.prems" have k: "list_all (\<lambda>j. kind_of j \<noteq> Implementation) (flatten_item i)"
    "list_all (\<lambda>j. kind_of j \<noteq> Implementation) (flatten is)" by simp_all
  have "definitions t = definitions s" using "14.IH"(1) [OF t k(1)] .
  moreover have "definitions s' = definitions t" using "14.IH"(2) [OF t r k(2)] .
  ultimately show ?case by simp
qed simp_all

lemma preprocess_total: "\<exists>s. preprocess inc e = Some s"
  by (cases "map_of e ''__gsub_es_h__''") (simp_all add: first_inclusion repeated_inclusion)

section \<open>Signatures\<close>



lemma per_context:
  "filter (\<lambda>d. fname d \<notin> set without_handle) all_prototypes =
     [arglCleanup, arglDispImage, arglDispImageStateful,
      arglDistortionCompensationSet, arglDistortionCompensationGet,
      arglSetPixelZoom, arglGetPixelZoom, arglPixelFormatSet, arglPixelFormatGet,
      arglGetRotate90, arglSetRotate90, arglGetFlipH, arglSetFlipH, arglGetFlipV, arglSetFlipV,
      arglPixelBufferSizeSet, arglPixelBufferSizeGet, arglPixelBufferDataUploadBiPlanar]"
  by (simp add: all_prototypes_def without_handle_def prototype_defs)

lemma standalone:
  "filter (\<lambda>d. fname d \<in> set without_handle) all_prototypes =
     [arglSetupForCurrentContext, arglGluCheckExtension, arglGLCapabilityCheck]"
  by (simp add: all_prototypes_def without_handle_def prototype_defs)

lemma per_context_shape:
  "list_all (\<lambda>d. handle_first d \<and> listed_rest d \<and> (ret d = CChar \<or> ret d = CVoid))
     (filter (\<lambda>d. fname d \<notin> set without_handle) all_prototypes)"
  unfolding per_context
  by (simp add: handle_first_def listed_rest_def prototype_defs)

lemma standalone_shape:
  "map (\<lambda>d. (fname d, ret d, map fst (params d)))
       (filter (\<lambda>d. fname d \<in> set without_handle) all_prototypes) =
     [(''arglSetupForCurrentContext'', ARGL_CONTEXT_SETTINGS_REF,
         [CPtr (CNamed ''ARParam''), CNamed ''AR_PIXEL_FORMAT'']),
      (''arglGluCheckExtension'', CNamed ''GLboolean'',
         [CPtr (CConst (CNamed ''GLubyte'')), CPtr (CConst (CNamed ''GLubyte''))]),
      (''arglGLCapabilityCheck'', CInt, [CConst CUShort, CPtr (CConst CUChar)])]"
  unfolding standalone by (simp add: prototype_defs)

lemma struct_only_by_name:
  "list_all (\<lambda>d. \<not> mentions_struct (ret d) \<and> list_all (\<lambda>p. \<not> mentions_struct (fst p)) (params d))
     all_prototypes"
  by (simp add: all_prototypes_def prototype_defs)

lemma standalone_no_handle:
  "list_all (\<lambda>d. \<not> takes_handle d) (filter (\<lambda>d. fname d \<in> set without_handle) all_prototypes)"
  unfolding standalone by (simp add: takes_handle_def prototype_defs)

lemma per_context_handle_first:
  "list_all handle_first (filter (\<lambda>d. fname d \<notin> set without_handle) all_prototypes)"
  unfolding per_context by (simp add: handle_first_def prototype_defs)

lemma handle_source:
  "filter (\<lambda>d. ret d = ARGL_CONTEXT_SETTINGS_REF) all_prototypes = [arglSetupForCurrentContext]"
  by (simp add: all_prototypes_def prototype_defs)

lemma surface_set: "set (map fname all_prototypes) = set spec_surface"
  unfolding names_all spec_surface_def by (simp add: insert_commute)

lemma surface_distinct: "distinct (map fname all_prototypes)"
  unfolding names_all by simp

section \<open>Result types of the fallible operations\<close>




section \<open>Shape of the signatures\<close>

text \<open>
  Claim C2, as stated: every declared function takes the context handle plus primitive
  parameters and returns a boolean-like code or void. Three prototypes of the header do
  not: \<open>arglSetupForCurrentContext\<close> takes no handle, takes a pointer to the \<open>ARParam\<close>
  structure and returns the handle; \<open>arglGluCheckExtension\<close> and
  \<open>arglGLCapabilityCheck\<close> take no handle.
\<close>

theorem three_signatures_off_shape:
  "arglSetupForCurrentContext \<in> set (declared defines_nothing [])
   \<and> \<not> takes_handle arglSetupForCurrentContext
   \<and> \<not> primitive_rest arglSetupForCurrentContext
   \<and> \<not> (boolean_like (ret arglSetupForCurrentContext) \<or> ret arglSetupForCurrentContext = CVoid)
   \<and> arglGluCheckExtension \<in> set (declared defines_nothing [])
   \<and> \<not> takes_handle arglGluCheckExtension
   \<and> arglGLCapabilityCheck \<in> set (declared defines_nothing [])
   \<and> \<not> takes_handle arglGLCapabilityCheck
   \<and> \<not> list_all spec_signature (declared defines_nothing [])"
proof -
  have shapes: "\<not> takes_handle arglSetupForCurrentContext"
    "\<not> primitive_rest arglSetupForCurrentContext"
    "\<not> (boolean_like (ret arglSetupForCurrentContext) \<or> ret arglSetupForCurrentContext = CVoid)"
    "\<not> takes_handle arglGluCheckExtension"
    "\<not> takes_handle arglGLCapabilityCheck"
    by (simp_all add: takes_handle_def primitive_rest_def boolean_like_def prototype_defs)
  have members: "arglSetupForCurrentContext \<in> set all_prototypes"
    "arglGluCheckExtension \<in> set all_prototypes" "arglGLCapabilityCheck \<in> set all_prototypes"
    by (simp_all add: all_prototypes_def)
  have "\<not> list_all spec_signature all_prototypes"
    using members(2) shapes(4) by (auto simp add: list_all_iff spec_signature_def)
  then show ?thesis
    using shapes members by (simp add: declared_first)
qed

text \<open>
  Claim C2, amended. Every function the header declares, other than
  \<open>arglSetupForCurrentContext\<close>, \<open>arglGluCheckExtension\<close> and \<open>arglGLCapabilityCheck\<close>,
  takes the context handle as its first parameter and nowhere else; each parameter
  besides it has type \<open>char\<close>, \<open>int\<close>, \<open>float\<close> or \<open>AR_PIXEL_FORMAT\<close>, or is a pointer
  to one of these or to \<open>ARUint8\<close>; and the function returns \<open>char\<close> or \<open>void\<close>. There
  are eighteen such functions. The three others are
  \<open>ARGL_CONTEXT_SETTINGS_REF arglSetupForCurrentContext(ARParam *, AR_PIXEL_FORMAT)\<close>,
  \<open>GLboolean arglGluCheckExtension(const GLubyte *, const GLubyte *)\<close> and
  \<open>int arglGLCapabilityCheck(const unsigned short, const unsigned char *)\<close>.
\<close>

theorem handle_then_primitives:
  assumes "map_of e ''__gsub_es_h__'' = None"
  shows "list_all (\<lambda>d. handle_first d \<and> listed_rest d \<and> (ret d = CChar \<or> ret d = CVoid))
           (filter (\<lambda>d. fname d \<notin> set without_handle) (declared inc e))
       \<and> length (filter (\<lambda>d. fname d \<notin> set without_handle) (declared inc e)) = 18
       \<and> map (\<lambda>d. (fname d, ret d, map fst (params d)))
             (filter (\<lambda>d. fname d \<in> set without_handle) (declared inc e)) =
           [(''arglSetupForCurrentContext'', ARGL_CONTEXT_SETTINGS_REF,
               [CPtr (CNamed ''ARParam''), CNamed ''AR_PIXEL_FORMAT'']),
            (''arglGluCheckExtension'', CNamed ''GLboolean'',
               [CPtr (CConst (CNamed ''GLubyte'')), CPtr (CConst (CNamed ''GLubyte''))]),
            (''arglGLCapabilityCheck'', CInt, [CConst CUShort, CPtr (CConst CUChar)])]"
proof -
  have "length (filter (\<lambda>d. fname d \<notin> set without_handle) all_prototypes) = 18"
    unfolding per_context by simp
  then show ?thesis
    unfolding declared_first [OF assms]
    using per_context_shape standalone_shape by blast
qed

theorem handle_then_primitives_witness:
  "map_of ([] :: env) ''__gsub_es_h__'' = None
   \<and> list_all (\<lambda>d. handle_first d \<and> listed_rest d \<and> (ret d = CChar \<or> ret d = CVoid))
           (filter (\<lambda>d. fname d \<notin> set without_handle) (declared defines_nothing []))
   \<and> length (filter (\<lambda>d. fname d \<notin> set without_handle) (declared defines_nothing [])) = 18"
  using handle_then_primitives [of "[]" defines_nothing] by simp

section \<open>The function surface\<close>

text \<open>
  Claim C3. On its first inclusion the header declares exactly the operations the
  specification lists and no others: setup and cleanup, \<open>arglDispImage\<close> and
  \<open>arglDispImageStateful\<close>, get and set for distortion compensation, pixel zoom, pixel
  format, rotation, horizontal and vertical flip and pixel-buffer size, the bi-planar
  upload, and the two capability checks; no name is declared twice. The only
  function-like macro anywhere in the file is \<open>arglPixelBufferDataUpload\<close>, the
  single-plane form of the upload, and it is defined after the inclusion.
\<close>

theorem surface_exact:
  assumes "map_of e ''__gsub_es_h__'' = None"
  shows "set (map fname (declared inc e)) = set spec_surface
       \<and> distinct (map fname (declared inc e))
       \<and> filter function_macro (flatten gsub_es_h) =
           [Define ''arglPixelBufferDataUpload'' arglPixelBufferDataUpload]
       \<and> defined_macro inc e ''arglPixelBufferDataUpload'' = Some arglPixelBufferDataUpload"
proof -
  have "defined_macro inc e ''arglPixelBufferDataUpload'' = Some arglPixelBufferDataUpload"
    using assms by (simp add: defined_macro_first macros_after_def)
  then show ?thesis
    unfolding declared_first [OF assms]
    using surface_set surface_distinct function_macros_header by blast
qed

theorem surface_exact_witness:
  "map_of ([] :: env) ''__gsub_es_h__'' = None
   \<and> set (map fname (declared defines_nothing [])) = set spec_surface
   \<and> distinct (map fname (declared defines_nothing []))
   \<and> defined_macro defines_nothing [] ''arglPixelBufferDataUpload'' = Some arglPixelBufferDataUpload"
  using surface_exact [of "[]" defines_nothing] by simp

section \<open>The opaque handle\<close>

text \<open>
  Claim C5. The only type the header declares is \<open>ARGL_CONTEXT_SETTINGS_REF\<close>, a pointer
  to \<open>struct _ARGL_CONTEXT_SETTINGS\<close>. No item of the file, in any conditional group,
  defines the members of a struct, so the struct stays incomplete for a caller. No
  prototype spells the struct out in a result or parameter type; the per-context
  operations reach it only through the handle, which is their first parameter and no
  other, and the three remaining prototypes take no handle at all. The only function
  that returns a handle is \<open>arglSetupForCurrentContext\<close>.
\<close>

theorem handle_is_opaque:
  assumes "map_of e ''__gsub_es_h__'' = None"
  shows "declared_types inc e =
           [(''ARGL_CONTEXT_SETTINGS_REF'', CPtr (CStruct ''_ARGL_CONTEXT_SETTINGS''))]
       \<and> filter struct_definition (flatten gsub_es_h) = []
       \<and> list_all (\<lambda>d. \<not> mentions_struct (ret d)
                        \<and> list_all (\<lambda>p. \<not> mentions_struct (fst p)) (params d)) (declared inc e)
       \<and> list_all handle_first (filter (\<lambda>d. fname d \<notin> set without_handle) (declared inc e))
       \<and> list_all (\<lambda>d. \<not> takes_handle d)
            (filter (\<lambda>d. fname d \<in> set without_handle) (declared inc e))
       \<and> filter (\<lambda>d. ret d = ARGL_CONTEXT_SETTINGS_REF) (declared inc e) =
           [arglSetupForCurrentContext]"
  unfolding declared_first [OF assms] declared_types_first [OF assms]
  using no_struct_definition struct_only_by_name per_context_handle_first standalone_no_handle
    handle_source
  by simp

theorem handle_is_opaque_witness:
  "map_of ([] :: env) ''__gsub_es_h__'' = None
   \<and> declared_types defines_nothing [] =
       [(''ARGL_CONTEXT_SETTINGS_REF'', CPtr (CStruct ''_ARGL_CONTEXT_SETTINGS''))]
   \<and> list_all handle_first
       (filter (\<lambda>d. fname d \<notin> set without_handle) (declared defines_nothing []))"
  using handle_is_opaque [of "[]" defines_nothing] by simp

section \<open>Declarations only\<close>

text \<open>
  Claim C6. Every item of the file, those inside conditional groups included, is a
  comment, an include, a preprocessor directive or a declaration (the typedef, a
  prototype, an \<open>extern "C"\<close> brace); none is a function with a body, a struct with
  members or an object definition. Accordingly, including the header never fails and
  defines nothing, whatever the macro table is and whatever the included headers do to
  it.
\<close>

theorem declarations_only:
  "list_all (\<lambda>i. kind_of i \<noteq> Implementation) (flatten gsub_es_h)
   \<and> (\<exists>s. preprocess inc e = Some s \<and> definitions s = [])"
proof -
  obtain s where s: "preprocess inc e = Some s"
    using preprocess_total by blast
  then have "definitions s = definitions (start e)"
    unfolding preprocess_def using kinds_sound(2) kinds_header by blast
  then have "definitions s = []"
    by (simp add: start_def)
  with s kinds_header show ?thesis by blast
qed

section \<open>The single-plane upload\<close>

text \<open>
  Claim C7. For all argument expressions \<open>contextSettings\<close> and \<open>bufDataPtr\<close>, the
  invocation \<open>arglPixelBufferDataUpload(contextSettings, bufDataPtr)\<close> expands to the call
  \<open>arglPixelBufferDataUploadBiPlanar(contextSettings, bufDataPtr, NULL)\<close>: the two are the
  same expression after preprocessing, so the single-plane upload is the bi-planar upload
  with no second plane.
\<close>

theorem upload_is_biplanar_with_null:
  assumes "map_of e ''__gsub_es_h__'' = None"
  shows "\<exists>m. defined_macro inc e ''arglPixelBufferDataUpload'' = Some m
           \<and> expand m [contextSettings, bufDataPtr] =
               Some (Call ''arglPixelBufferDataUploadBiPlanar'' [contextSettings, bufDataPtr, Ident ''NULL''])"
  using assms
  by (simp add: defined_macro_first macros_after_def arglPixelBufferDataUpload_def)

theorem upload_is_biplanar_with_null_witness:
  "map_of ([] :: env) ''__gsub_es_h__'' = None
   \<and> (\<exists>m. defined_macro defines_nothing [] ''arglPixelBufferDataUpload'' = Some m
           \<and> expand m [Ident ''ctx'', Ident ''frame''] =
               Some (Call ''arglPixelBufferDataUploadBiPlanar'' [Ident ''ctx'', Ident ''frame'', Ident ''NULL'']))"
  using upload_is_biplanar_with_null [of "[]" defines_nothing "Ident ''ctx''" "Ident ''frame''"] by simp

end
